theory Spec2Isabelle
  imports Complex_Main "HOL-Library.Log_Nat" "HOL-Library.Sublist"
begin

section \<open>Strings, file names and URLs\<close>

text \<open>
  \<open>QString\<close> is modelled as \<open>string\<close>. Only the operations that mainwindow.cpp uses
  are modelled: \<open>toLower\<close> (on the ASCII letters), \<open>contains\<close> (substring test),
  and the \<open>QFileInfo\<close> and \<open>QUrl\<close> accessors that cut a path at its last slash or at a dot.
\<close>

definition toLower_char :: "char \<Rightarrow> char" where
  "toLower_char c =
     (case map_of (zip ''ABCDEFGHIJKLMNOPQRSTUVWXYZ'' ''abcdefghijklmnopqrstuvwxyz'') c of
        Some l \<Rightarrow> l
      | None \<Rightarrow> c)"

definition toLower :: "string \<Rightarrow> string" where
  "toLower str = map toLower_char str"

text \<open>\<open>QString::contains(sub)\<close>: \<open>sub\<close> occurs in the string as a contiguous substring.\<close>

fun contains :: "string \<Rightarrow> string \<Rightarrow> bool" where
  "contains [] sub = (sub = [])"
| "contains (c # cs) sub = (prefix sub (c # cs) \<or> contains cs sub)"

text \<open>\<open>QFileInfo::fileName\<close>: the text after the last slash.\<close>

definition QFileInfo_fileName :: "string \<Rightarrow> string" where
  "QFileInfo_fileName p = rev (takeWhile (\<lambda>c. c \<noteq> CHR ''/'') (rev p))"

text \<open>\<open>QFileInfo::suffix\<close>: the text of the file name after its last dot, empty without a dot.\<close>

definition QFileInfo_suffix :: "string \<Rightarrow> string" where
  "QFileInfo_suffix p =
     (let f = QFileInfo_fileName p
      in if CHR ''.'' \<in> set f then rev (takeWhile (\<lambda>c. c \<noteq> CHR ''.'') (rev f)) else [])"

text \<open>\<open>QFileInfo::baseName\<close>: the text of the file name up to its first dot.\<close>

definition QFileInfo_baseName :: "string \<Rightarrow> string" where
  "QFileInfo_baseName p = takeWhile (\<lambda>c. c \<noteq> CHR ''.'') (QFileInfo_fileName p)"

text \<open>
  A \<open>QUrl\<close> of a local file: whether Qt accepts it (\<open>isValid\<close>) and its local path
  (\<open>toLocalFile\<close>). The default-constructed \<open>QUrl()\<close> is empty and not valid.
\<close>

record QUrl =
  isValid :: bool
  toLocalFile :: string

definition QUrl_empty :: QUrl where
  "QUrl_empty = \<lparr>isValid = False, toLocalFile = []\<rparr>"

definition QUrl_isEmpty :: "QUrl \<Rightarrow> bool" where
  "QUrl_isEmpty u = (toLocalFile u = [])"

definition QUrl_fromLocalFile :: "string \<Rightarrow> QUrl" where
  "QUrl_fromLocalFile p = \<lparr>isValid = (p \<noteq> []), toLocalFile = p\<rparr>"

definition QUrl_fileName :: "QUrl \<Rightarrow> string" where
  "QUrl_fileName u = QFileInfo_fileName (toLocalFile u)"

text \<open>\<open>url.adjusted(QUrl::RemoveFilename)\<close>: the path up to and including its last slash.\<close>

definition QUrl_RemoveFilename :: "QUrl \<Rightarrow> QUrl" where
  "QUrl_RemoveFilename u =
     u\<lparr>toLocalFile := rev (dropWhile (\<lambda>c. c \<noteq> CHR ''/'') (rev (toLocalFile u)))\<rparr>"

section \<open>Images\<close>

text \<open>
  A \<open>QImage\<close> is either the null image \<open>QImage()\<close> or a raster with a width, a height
  and its pixel data. The null image has width and height 0.
\<close>

datatype QImage = QImage_null | Raster nat nat "nat list"

definition isNull :: "QImage \<Rightarrow> bool" where
  "isNull img = (case img of QImage_null \<Rightarrow> True | Raster w h px \<Rightarrow> False)"

definition width :: "QImage \<Rightarrow> int" where
  "width img = (case img of QImage_null \<Rightarrow> 0 | Raster w h px \<Rightarrow> int w)"

definition height :: "QImage \<Rightarrow> int" where
  "height img = (case img of QImage_null \<Rightarrow> 0 | Raster w h px \<Rightarrow> int h)"

datatype IntensityMap = IntensityMap nat nat "rat list"

datatype Mode = IntensityMap_AVERAGE | IntensityMap_MAX

datatype Kernel = SOBEL | PREWITT

datatype AspectRatioMode = IgnoreAspectRatio | KeepAspectRatio

datatype TransformationMode = FastTransformation | SmoothTransformation

section \<open>Double precision arithmetic\<close>

text \<open>
  A finite \<open>double\<close> is a mantissa and a binary exponent, \<open>Double m e\<close> standing for
  \<open>m * 2 ^ e\<close>. Every operation computes the exact result and rounds it to 53 significant
  bits, ties to even, as IEEE 754 binary64 does. The exponent range is not modelled
  (no overflow to infinity, no subnormal numbers): the values mainwindow.cpp computes with
  are image sizes, percentages and milliseconds.
\<close>

datatype double = Double int int

fun dbl_value :: "double \<Rightarrow> rat" where
  "dbl_value (Double m e) =
     (if 0 \<le> e then of_int m * 2 ^ nat e else of_int m / 2 ^ nat (- e))"

text \<open>\<open>m / 2 ^ k\<close> rounded to the nearest integer, ties to even.\<close>

definition rne_shift :: "int \<Rightarrow> nat \<Rightarrow> int" where
  "rne_shift m k =
     (let q = m div 2 ^ k; r = m mod 2 ^ k
      in if 2 * r < 2 ^ k then q
         else if 2 ^ k < 2 * r then q + 1
         else if even q then q else q + 1)"

definition dbl_round :: "int \<Rightarrow> int \<Rightarrow> double" where
  "dbl_round m e = (let k = nat (bitlen \<bar>m\<bar> - 53) in Double (rne_shift m k) (e + int k))"

definition dbl_of_int :: "int \<Rightarrow> double" where
  "dbl_of_int n = dbl_round n 0"

fun dbl_neg :: "double \<Rightarrow> double" where
  "dbl_neg (Double m e) = Double (- m) e"

fun dbl_mul :: "double \<Rightarrow> double \<Rightarrow> double" where
  "dbl_mul (Double m1 e1) (Double m2 e2) = dbl_round (m1 * m2) (e1 + e2)"

fun dbl_add :: "double \<Rightarrow> double \<Rightarrow> double" where
  "dbl_add (Double m1 e1) (Double m2 e2) =
     (let e = min e1 e2
      in dbl_round (m1 * 2 ^ nat (e1 - e) + m2 * 2 ^ nat (e2 - e)) e)"

text \<open>
  Division by a non-zero divisor: the quotient is computed with more than 55 bits and a
  sticky bit for the remainder, then rounded.
\<close>

fun dbl_div :: "double \<Rightarrow> double \<Rightarrow> double" where
  "dbl_div (Double m1 e1) (Double m2 e2) =
     (let sh = nat (bitlen \<bar>m2\<bar>) + 55;
          n = \<bar>m1\<bar> * 2 ^ sh;
          q = n div \<bar>m2\<bar>;
          sticky = (if n mod \<bar>m2\<bar> = 0 then 0 else 1)
      in dbl_round (sgn m1 * sgn m2 * (2 * q + sticky)) (e1 - e2 - int sh - 1))"

text \<open>Conversion of a \<open>double\<close> to \<open>int\<close> in C++: the fractional part is discarded.\<close>

fun dbl_to_int :: "double \<Rightarrow> int" where
  "dbl_to_int (Double m e) =
     (if 0 \<le> e then m * 2 ^ nat e else sgn m * (\<bar>m\<bar> div 2 ^ nat (- e)))"

text \<open>The literal \<open>0.037\<close>: the double nearest to 37/1000.\<close>

definition lit_0_037 :: double where
  "lit_0_037 = Double 5332261958806667 (- 57)"

text \<open>\<open>MainWindow::calcPercentage\<close>: \<open>(int) (((double)value / 100.0) * percentage)\<close>.\<close>

definition calcPercentage :: "int \<Rightarrow> int \<Rightarrow> int" where
  "calcPercentage val percentage =
     dbl_to_int (dbl_mul (dbl_div (dbl_of_int val) (Double 100 0)) (dbl_of_int percentage))"

text \<open>
  The large-detail scale that \<open>MainWindow::load\<close> computes from the longest image side:
  \<open>int largeDetailScale = -0.037 * imageSize + 100;\<close>
\<close>

definition largeDetailScale_formula :: "int \<Rightarrow> int" where
  "largeDetailScale_formula imageSize =
     dbl_to_int (dbl_add (dbl_mul (dbl_neg lit_0_037) (dbl_of_int imageSize)) (dbl_of_int 100))"

section \<open>The environment of the main window\<close>

text \<open>
  mainwindow.cpp calls the map generators of the repository (NormalmapGenerator,
  SpecularmapGenerator, SsaoGenerator, IntensityMap, BoxBlur), whose sources are other
  files, and the Qt library (image decoding, encoding and scaling, the file system, the
  timer, the event loop). They are parameters of the model: every function of the window
  takes an environment \<open>env\<close> that fixes what these collaborators return.
\<close>

record Env =
  \<comment> \<open>\<open>QImage(fileName)\<close>: the decoded file, the null image when decoding fails\<close>
  QImage_fromFile :: "string \<Rightarrow> QImage"
  \<comment> \<open>\<open>image.save(fileName)\<close>: whether the file could be written\<close>
  QImage_save :: "QImage \<Rightarrow> string \<Rightarrow> bool"
  \<comment> \<open>\<open>image.scaled(w, h, aspectMode, transformMode)\<close>\<close>
  QImage_scaled :: "QImage \<Rightarrow> int \<Rightarrow> int \<Rightarrow> AspectRatioMode \<Rightarrow> TransformationMode \<Rightarrow> QImage"
  \<comment> \<open>\<open>QFileInfo(path).absolutePath()\<close>\<close>
  QFileInfo_absolutePath :: "string \<Rightarrow> string"
  \<comment> \<open>\<open>QString::number(double)\<close>\<close>
  QString_number :: "double \<Rightarrow> string"
  \<comment> \<open>\<open>NormalmapGenerator(mode, useRed, useGreen, useBlue, useAlpha).calculateNormalmap(input,
      kernel, strength, invert, tileable, keepLargeDetail, largeDetailScale, largeDetailHeight)\<close>\<close>
  calculateNormalmap ::
    "Mode \<Rightarrow> bool \<Rightarrow> bool \<Rightarrow> bool \<Rightarrow> bool \<Rightarrow> QImage \<Rightarrow> Kernel \<Rightarrow> double \<Rightarrow> bool \<Rightarrow> bool \<Rightarrow> bool
       \<Rightarrow> int \<Rightarrow> double \<Rightarrow> QImage"
  \<comment> \<open>\<open>getIntensityMap().convertToQImage()\<close> of the same generator after that call\<close>
  getIntensityMap_convertToQImage ::
    "Mode \<Rightarrow> bool \<Rightarrow> bool \<Rightarrow> bool \<Rightarrow> bool \<Rightarrow> QImage \<Rightarrow> Kernel \<Rightarrow> double \<Rightarrow> bool \<Rightarrow> bool \<Rightarrow> bool
       \<Rightarrow> int \<Rightarrow> double \<Rightarrow> QImage"
  \<comment> \<open>\<open>SpecularmapGenerator(mode, redMultiplier, greenMultiplier, blueMultiplier,
      alphaMultiplier).calculateSpecmap(input, scale, contrast)\<close>\<close>
  calculateSpecmap ::
    "Mode \<Rightarrow> double \<Rightarrow> double \<Rightarrow> double \<Rightarrow> double \<Rightarrow> QImage \<Rightarrow> double \<Rightarrow> double \<Rightarrow> QImage"
  \<comment> \<open>\<open>SsaoGenerator().calculateSsaomap(normalmap, depthmap, size, samples, noiseTexSize)\<close>;
      the conversions of \<open>size\<close> to \<open>float\<close> and of the counts to \<open>unsigned int\<close> are
      part of this parameter\<close>
  calculateSsaomap :: "QImage \<Rightarrow> QImage \<Rightarrow> double \<Rightarrow> int \<Rightarrow> int \<Rightarrow> QImage"
  \<comment> \<open>\<open>IntensityMap(image, mode)\<close>\<close>
  IntensityMap_of :: "QImage \<Rightarrow> Mode \<Rightarrow> IntensityMap"
  \<comment> \<open>\<open>IntensityMap(image, mode, useRed, useGreen, useBlue, useAlpha)\<close>\<close>
  IntensityMap_channels :: "QImage \<Rightarrow> Mode \<Rightarrow> bool \<Rightarrow> bool \<Rightarrow> bool \<Rightarrow> bool \<Rightarrow> IntensityMap"
  \<comment> \<open>\<open>intensityMap.convertToQImage()\<close>\<close>
  convertToQImage :: "IntensityMap \<Rightarrow> QImage"
  \<comment> \<open>\<open>BoxBlur().calculate(inputMap, radius, tileable)\<close>\<close>
  BoxBlur_calculate :: "IntensityMap \<Rightarrow> int \<Rightarrow> bool \<Rightarrow> IntensityMap"
  \<comment> \<open>\<open>timer.elapsed()\<close> of the n-th timer that is read, in milliseconds\<close>
  elapsed :: "nat \<Rightarrow> int"
  \<comment> \<open>whether a click on the stop button is delivered by the call of
      \<open>QCoreApplication::processEvents()\<close> that ends queue item \<open>i\<close>\<close>
  stopClicked :: "nat \<Rightarrow> bool"

section \<open>The state of the main window\<close>

record QueueItem =
  getUrl :: QUrl
  item_text :: string

text \<open>
  The members of \<open>MainWindow\<close>, the widgets of \<open>ui\<close> whose values the code reads, and what
  the window does to the outside: the message in the status bar, the message boxes it has
  shown, the files it has written and the number of timers it has read. Widgets that are
  only written (the enabling of buttons, labels, the progress bar, the selection of the
  queue list, the graphics scene and its zoom) are left out, and so is the console output.
  The range of \<open>spinBox_largeDetailScale\<close> is set in the form file, which is another file
  of the repository: it is kept as two fields of the state.
\<close>

record MainWindow =
  input :: QImage
  channelIntensity :: QImage
  normalmap :: QImage
  specmap :: QImage
  displacementmap :: QImage
  ssaomap :: QImage
  normalmapRawIntensity :: QImage
  lastCalctime_normal :: int
  lastCalctime_specular :: int
  lastCalctime_displace :: int
  lastCalctime_ssao :: int
  stopQueue :: bool
  exportPath :: QUrl
  loadedImagePath :: QUrl
  statusBar :: string
  messageBoxes :: "(string \<times> string) list"
  savedFiles :: "(string \<times> QImage) list"
  timersRead :: nat
  listWidget_queue :: "QueueItem list"
  tabWidget_currentIndex :: int
  checkBox_autoUpdate :: bool
  checkBox_autoUpdate_enabled :: bool
  doubleSpinBox_autoUpdateThreshold :: double
  checkBox_displayChannelIntensity :: bool
  radioButton_displayRed :: bool
  radioButton_displayGreen :: bool
  radioButton_displayBlue :: bool
  doubleSpinBox_strength :: double
  checkBox_invertHeight :: bool
  checkBox_tileable :: bool
  comboBox_mode_normal :: int
  checkBox_useRed_normal :: bool
  checkBox_useGreen_normal :: bool
  checkBox_useBlue_normal :: bool
  checkBox_useAlpha_normal :: bool
  comboBox_method :: int
  checkBox_keepLargeDetail :: bool
  spinBox_largeDetailScale :: int
  spinBox_largeDetailScale_minimum :: int
  spinBox_largeDetailScale_maximum :: int
  doubleSpinBox_largeDetailHeight :: double
  spinBox_normalmapSize :: int
  comboBox_mode_spec :: int
  doubleSpinBox_spec_redMul :: double
  doubleSpinBox_spec_greenMul :: double
  doubleSpinBox_spec_blueMul :: double
  doubleSpinBox_spec_alphaMul :: double
  doubleSpinBox_spec_scale :: double
  doubleSpinBox_spec_contrast :: double
  comboBox_mode_displace :: int
  doubleSpinBox_displace_redMul :: double
  doubleSpinBox_displace_greenMul :: double
  doubleSpinBox_displace_blueMul :: double
  doubleSpinBox_displace_scale :: double
  doubleSpinBox_displace_contrast :: double
  checkBox_displace_blur :: bool
  spinBox_displace_blurRadius :: int
  checkBox_displace_blur_tileable :: bool
  doubleSpinBox_ssao_size :: double
  spinBox_ssao_samples :: int
  spinBox_ssao_noiseTexSize :: int
  checkBox_queue_generateNormal :: bool
  checkBox_queue_generateSpec :: bool
  checkBox_queue_generateDisplace :: bool

datatype error = Exception string

section \<open>Generating the maps\<close>

text \<open>The mode that the three mode combo boxes stand for: index 1 is MAX, every other index AVERAGE.\<close>

definition comboBox_mode :: "int \<Rightarrow> Mode" where
  "comboBox_mode currentIndex =
     (if currentIndex = 0 then IntensityMap_AVERAGE
      else if currentIndex = 1 then IntensityMap_MAX
      else IntensityMap_AVERAGE)"

definition comboBox_kernel :: "int \<Rightarrow> Kernel" where
  "comboBox_kernel currentIndex =
     (if currentIndex = 0 then SOBEL else if currentIndex = 1 then PREWITT else SOBEL)"

definition calcNormal :: "Env \<Rightarrow> MainWindow \<Rightarrow> MainWindow" where
  "calcNormal env s =
     (if isNull (input s) then s
      else
        let strength = doubleSpinBox_strength s;
            invert = checkBox_invertHeight s;
            tileable = checkBox_tileable s;
            mode = comboBox_mode (comboBox_mode_normal s);
            useRed = checkBox_useRed_normal s;
            useGreen = checkBox_useGreen_normal s;
            useBlue = checkBox_useBlue_normal s;
            useAlpha = checkBox_useAlpha_normal s;
            kernel = comboBox_kernel (comboBox_method s);
            keepLargeDetail = checkBox_keepLargeDetail s;
            largeDetailScale = spinBox_largeDetailScale s;
            largeDetailHeight = doubleSpinBox_largeDetailHeight s;
            sizePercent = spinBox_normalmapSize s;
            inputScaled =
              (if sizePercent \<noteq> 100
               then QImage_scaled env (input s)
                      (calcPercentage (width (input s)) sizePercent)
                      (calcPercentage (height (input s)) sizePercent)
                      KeepAspectRatio SmoothTransformation
               else input s)
        in s\<lparr>normalmap :=
               calculateNormalmap env mode useRed useGreen useBlue useAlpha inputScaled kernel
                 strength invert tileable keepLargeDetail largeDetailScale largeDetailHeight,
             normalmapRawIntensity :=
               getIntensityMap_convertToQImage env mode useRed useGreen useBlue useAlpha
                 inputScaled kernel strength invert tileable keepLargeDetail largeDetailScale
                 largeDetailHeight\<rparr>)"

definition calcSpec :: "Env \<Rightarrow> MainWindow \<Rightarrow> MainWindow" where
  "calcSpec env s =
     (if isNull (input s) then s
      else
        let mode = comboBox_mode (comboBox_mode_spec s);
            redMultiplier = doubleSpinBox_spec_redMul s;
            greenMultiplier = doubleSpinBox_spec_greenMul s;
            blueMultiplier = doubleSpinBox_spec_blueMul s;
            alphaMultiplier = doubleSpinBox_spec_alphaMul s;
            scale = doubleSpinBox_spec_scale s;
            contrast = doubleSpinBox_spec_contrast s
        in s\<lparr>specmap :=
               calculateSpecmap env mode redMultiplier greenMultiplier blueMultiplier
                 alphaMultiplier (input s) scale contrast\<rparr>)"

text \<open>The displacement map is generated by the specular map generator, with the alpha multiplier 0.0.\<close>

definition calcDisplace :: "Env \<Rightarrow> MainWindow \<Rightarrow> MainWindow" where
  "calcDisplace env s =
     (if isNull (input s) then s
      else
        let mode = comboBox_mode (comboBox_mode_displace s);
            redMultiplier = doubleSpinBox_displace_redMul s;
            greenMultiplier = doubleSpinBox_displace_greenMul s;
            blueMultiplier = doubleSpinBox_displace_blueMul s;
            alphaMultiplier = Double 0 0;
            scale = doubleSpinBox_displace_scale s;
            contrast = doubleSpinBox_displace_contrast s;
            s1 = s\<lparr>displacementmap :=
                    calculateSpecmap env mode redMultiplier greenMultiplier blueMultiplier
                      alphaMultiplier (input s) scale contrast\<rparr>
        in if checkBox_displace_blur s1
           then
             let radius = spinBox_displace_blurRadius s1;
                 tileable = checkBox_displace_blur_tileable s1;
                 inputMap = IntensityMap_of env (displacementmap s1) IntensityMap_AVERAGE;
                 outputMap = BoxBlur_calculate env inputMap radius tileable
             in s1\<lparr>displacementmap := convertToQImage env outputMap\<rparr>
           else s1)"

definition calcSsao :: "Env \<Rightarrow> MainWindow \<Rightarrow> MainWindow" where
  "calcSsao env s =
     (if isNull (input s) then s
      else
        let s1 = (if isNull (normalmap s) then calcNormal env s else s);
            s2 = s1\<lparr>normalmapRawIntensity :=
                    QImage_scaled env (normalmapRawIntensity s1) (width (normalmap s1))
                      (height (normalmap s1)) IgnoreAspectRatio FastTransformation\<rparr>;
            size = doubleSpinBox_ssao_size s2;
            samples = spinBox_ssao_samples s2;
            noiseTexSize = spinBox_ssao_noiseTexSize s2
        in s2\<lparr>ssaomap :=
                calculateSsaomap env (normalmap s2) (normalmapRawIntensity s2) size samples
                  noiseTexSize\<rparr>)"

section \<open>Calculating and previewing\<close>

definition generateElapsedTimeMsg :: "Env \<Rightarrow> int \<Rightarrow> string \<Rightarrow> string" where
  "generateElapsedTimeMsg env calcTimeMs mapType =
     (let calcTimeS = dbl_div (dbl_of_int calcTimeMs) (Double 1000 0)
      in ''calculated '' @ mapType @ '' ('' @ QString_number env calcTimeS @ '' seconds)'')"

definition displayCalcTime :: "Env \<Rightarrow> int \<Rightarrow> string \<Rightarrow> MainWindow \<Rightarrow> MainWindow" where
  "displayCalcTime env calcTime_ms mapType s =
     s\<lparr>statusBar := generateElapsedTimeMsg env calcTime_ms mapType\<rparr>"

text \<open>
  Each \<open>calc...AndPreview\<close> runs its calculation between the start and the reading of a
  timer and ends with a call of \<open>preview\<close> for its tab. \<open>preview\<close> calls it again
  when an image is loaded and the map of the tab is still null, so the two functions call
  each other for as long as the generator returns a null map. The first definition of each
  pair is what the function does before it calls \<open>preview\<close>; the second one adds that
  call, with the body of \<open>preview\<close> for the tab written out. A run that never ends is
  the value \<open>None\<close>.
\<close>

definition calcNormal_timed :: "Env \<Rightarrow> MainWindow \<Rightarrow> MainWindow" where
  "calcNormal_timed env s =
     (let n = timersRead s;
          s1 = s\<lparr>statusBar := ''calculating normalmap...'', timersRead := Suc n\<rparr>;
          s2 = calcNormal env s1;
          s3 = s2\<lparr>lastCalctime_normal := elapsed env n\<rparr>
      in displayCalcTime env (lastCalctime_normal s3) ''normalmap'' s3)"

partial_function (option) calcNormalAndPreview :: "Env \<Rightarrow> MainWindow \<Rightarrow> MainWindow option" where
  "calcNormalAndPreview env s =
     (if \<not> isNull (input (calcNormal_timed env s)) \<and> isNull (normalmap (calcNormal_timed env s))
      then calcNormalAndPreview env (calcNormal_timed env s)
      else Some (calcNormal_timed env s))"

definition calcSpec_timed :: "Env \<Rightarrow> MainWindow \<Rightarrow> MainWindow" where
  "calcSpec_timed env s =
     (let n = timersRead s;
          s1 = s\<lparr>statusBar := ''calculating specularmap...'', timersRead := Suc n\<rparr>;
          s2 = calcSpec env s1;
          s3 = s2\<lparr>lastCalctime_specular := elapsed env n\<rparr>
      in displayCalcTime env (lastCalctime_specular s3) ''specularmap'' s3)"

partial_function (option) calcSpecAndPreview :: "Env \<Rightarrow> MainWindow \<Rightarrow> MainWindow option" where
  "calcSpecAndPreview env s =
     (if \<not> isNull (input (calcSpec_timed env s)) \<and> isNull (specmap (calcSpec_timed env s))
      then calcSpecAndPreview env (calcSpec_timed env s)
      else Some (calcSpec_timed env s))"

definition calcDisplace_timed :: "Env \<Rightarrow> MainWindow \<Rightarrow> MainWindow" where
  "calcDisplace_timed env s =
     (let n = timersRead s;
          s1 = s\<lparr>statusBar := ''calculating displacementmap...'', timersRead := Suc n\<rparr>;
          s2 = calcDisplace env s1;
          s3 = s2\<lparr>lastCalctime_displace := elapsed env n\<rparr>
      in displayCalcTime env (lastCalctime_displace s3) ''displacementmap'' s3)"

partial_function (option) calcDisplaceAndPreview :: "Env \<Rightarrow> MainWindow \<Rightarrow> MainWindow option" where
  "calcDisplaceAndPreview env s =
     (if \<not> isNull (input (calcDisplace_timed env s))
         \<and> isNull (displacementmap (calcDisplace_timed env s))
      then calcDisplaceAndPreview env (calcDisplace_timed env s)
      else Some (calcDisplace_timed env s))"

definition calcSsao_timed :: "Env \<Rightarrow> MainWindow \<Rightarrow> MainWindow" where
  "calcSsao_timed env s =
     (let n = timersRead s;
          s1 = s\<lparr>statusBar := ''calculating ambient occlusion map...'', timersRead := Suc n\<rparr>;
          s2 = calcSsao env s1;
          s3 = s2\<lparr>lastCalctime_ssao := elapsed env n\<rparr>
      in displayCalcTime env (lastCalctime_ssao s3) ''ambient occlusion map'' s3)"

partial_function (option) calcSsaoAndPreview :: "Env \<Rightarrow> MainWindow \<Rightarrow> MainWindow option" where
  "calcSsaoAndPreview env s =
     (if \<not> isNull (input (calcSsao_timed env s)) \<and> isNull (ssaomap (calcSsao_timed env s))
      then calcSsaoAndPreview env (calcSsao_timed env s)
      else Some (calcSsao_timed env s))"

text \<open>\<open>preview(tab)\<close>: what is drawn is not modelled, only the calculation a tab can start.\<close>

definition preview :: "Env \<Rightarrow> int \<Rightarrow> MainWindow \<Rightarrow> MainWindow option" where
  "preview env tab s =
     (if tab = 1 then
        (if \<not> isNull (input s) \<and> isNull (normalmap s) then calcNormalAndPreview env s else Some s)
      else if tab = 2 then
        (if \<not> isNull (input s) \<and> isNull (specmap s) then calcSpecAndPreview env s else Some s)
      else if tab = 3 then
        (if \<not> isNull (input s) \<and> isNull (displacementmap s)
         then calcDisplaceAndPreview env s else Some s)
      else if tab = 4 then
        (if \<not> isNull (input s) \<and> isNull (ssaomap s) then calcSsaoAndPreview env s else Some s)
      else Some s)"

text \<open>The intensity map \<open>temp\<close> that \<open>displayChannelIntensity\<close> builds from the input.\<close>

definition displayChannelIntensity_temp :: "Env \<Rightarrow> MainWindow \<Rightarrow> IntensityMap" where
  "displayChannelIntensity_temp env s =
     (if radioButton_displayRed s
      then IntensityMap_channels env (input s) IntensityMap_AVERAGE True False False False
      else if radioButton_displayGreen s
      then IntensityMap_channels env (input s) IntensityMap_AVERAGE False True False False
      else if radioButton_displayBlue s
      then IntensityMap_channels env (input s) IntensityMap_AVERAGE False False True False
      else IntensityMap_channels env (input s) IntensityMap_AVERAGE False False False True)"

definition displayChannelIntensity :: "Env \<Rightarrow> MainWindow \<Rightarrow> MainWindow option" where
  "displayChannelIntensity env s =
     (if isNull (input s) then Some s
      else
        let temp = displayChannelIntensity_temp env s
        in preview env 0 (s\<lparr>channelIntensity := convertToQImage env temp\<rparr>))"

text \<open>
  \<open>autoUpdate\<close> is the slot of the parameter widgets: it recalculates the map of the
  current tab when auto update is on and the last calculation of that map was fast enough.
\<close>

definition autoUpdate :: "Env \<Rightarrow> MainWindow \<Rightarrow> MainWindow option" where
  "autoUpdate env s =
     (if \<not> checkBox_autoUpdate s \<or> \<not> checkBox_autoUpdate_enabled s then Some s
      else
        let autoUpdateThreshold_ms =
              dbl_to_int (dbl_mul (doubleSpinBox_autoUpdateThreshold s) (Double 1000 0));
            tab = tabWidget_currentIndex s
        in if tab = 1 then
             (if lastCalctime_normal s < autoUpdateThreshold_ms
              then calcNormalAndPreview env s else Some s)
           else if tab = 2 then
             (if lastCalctime_specular s < autoUpdateThreshold_ms
              then calcSpecAndPreview env s else Some s)
           else if tab = 3 then
             (if lastCalctime_displace s < autoUpdateThreshold_ms
              then calcDisplaceAndPreview env s else Some s)
           else if tab = 4 then
             (if lastCalctime_ssao s < autoUpdateThreshold_ms
              then calcSsaoAndPreview env s else Some s)
           else Some s)"

section \<open>Loading an image\<close>

text \<open>
  \<open>ui->spinBox_largeDetailScale->setValue(v)\<close>: the spin box keeps the value within its
  range and, when its value changes, emits \<open>valueChanged\<close>, which \<open>connectSignalSlots\<close>
  connects to \<open>autoUpdate\<close>.
\<close>

definition spinBox_largeDetailScale_setValue :: "Env \<Rightarrow> int \<Rightarrow> MainWindow \<Rightarrow> MainWindow option" where
  "spinBox_largeDetailScale_setValue env v s =
     (let bounded =
            (if v < spinBox_largeDetailScale_minimum s then spinBox_largeDetailScale_minimum s
             else if spinBox_largeDetailScale_maximum s < v then spinBox_largeDetailScale_maximum s
             else v)
      in if bounded = spinBox_largeDetailScale s then Some s
         else autoUpdate env (s\<lparr>spinBox_largeDetailScale := bounded\<rparr>))"

definition enableAutoupdate :: "bool \<Rightarrow> MainWindow \<Rightarrow> MainWindow" where
  "enableAutoupdate on s = s\<lparr>checkBox_autoUpdate_enabled := on\<rparr>"

text \<open>
  \<open>load\<close> returns \<open>Inl\<close> of the exception it throws or \<open>Inr\<close> of its return value and
  the new state.
\<close>

definition load :: "Env \<Rightarrow> QUrl \<Rightarrow> MainWindow \<Rightarrow> (error + bool \<times> MainWindow) option" where
  "load env url s =
     (if \<not> isValid url then Some (Inl (Exception ''[load] invalid url!''))
      else
        let s1 = s\<lparr>statusBar := ''loading Image: '' @ QUrl_fileName url\<rparr>;
            s2 = s1\<lparr>input := QImage_fromFile env (toLocalFile url)\<rparr>
        in if isNull (input s2)
           then
             let errorMessage =
                   ''Image not loaded!'' @
                   (if toLower (QFileInfo_suffix (toLocalFile url)) = ''tga''
                    then CHR 0x0A # ''Only uncompressed TGA files are supported.''
                    else CHR 0x0A # ''Most likely the image format is not supported.'')
             in Some (Inr (False,
                  s2\<lparr>statusBar := ''Error: Image '' @ QUrl_fileName url @ '' NOT loaded!'',
                     messageBoxes :=
                       messageBoxes s2 @ [(''Error while loading image'', errorMessage)]\<rparr>))
           else
             let s3 = s2\<lparr>exportPath :=
                          (if QUrl_isEmpty (exportPath s2) then QUrl_RemoveFilename url
                           else exportPath s2),
                        loadedImagePath := url\<rparr>;
                 s4 = enableAutoupdate True s3;
                 imageSize = max (width (input s4)) (height (input s4));
                 largeDetailScale = largeDetailScale_formula imageSize;
                 s5 = s4\<lparr>checkBox_keepLargeDetail := True\<rparr>;
                 s6 = (if imageSize < 300 then s5\<lparr>checkBox_keepLargeDetail := False\<rparr> else s5);
                 largeDetailScale' =
                   (if imageSize < 300 then largeDetailScale
                    else if 2300 < imageSize then 20
                    else largeDetailScale)
             in case spinBox_largeDetailScale_setValue env largeDetailScale' s6 of
                  None \<Rightarrow> None
                | Some s7 \<Rightarrow>
                    let s8 = s7\<lparr>tabWidget_currentIndex := 0,
                               channelIntensity := QImage_null,
                               normalmap := QImage_null,
                               specmap := QImage_null,
                               displacementmap := QImage_null,
                               ssaomap := QImage_null\<rparr>
                    in (case (if checkBox_displayChannelIntensity s8
                              then displayChannelIntensity env s8
                              else preview env 0 s8) of
                          None \<Rightarrow> None
                        | Some s9 \<Rightarrow> Some (Inr (True, s9\<lparr>statusBar := []\<rparr>))))"

definition addImageToQueue :: "QUrl \<Rightarrow> MainWindow \<Rightarrow> MainWindow" where
  "addImageToQueue url s =
     s\<lparr>listWidget_queue :=
         listWidget_queue s @ [\<lparr>getUrl = url, item_text = QUrl_fileName url\<rparr>]\<rparr>"

definition loadSingleDropped :: "Env \<Rightarrow> QUrl \<Rightarrow> MainWindow \<Rightarrow> (error + MainWindow) option" where
  "loadSingleDropped env url s =
     (case load env url s of
        None \<Rightarrow> None
      | Some (Inl e) \<Rightarrow> Some (Inl e)
      | Some (Inr (ok, s1)) \<Rightarrow> Some (Inr (if ok then addImageToQueue url s1 else s1)))"

text \<open>
  The loop of \<open>loadMultipleDropped\<close> over the dropped URLs, with its two flags; it returns
  the final value of \<open>containedInvalidFormat\<close> and the new state.
\<close>

fun loadMultipleDropped_loop ::
  "Env \<Rightarrow> QUrl list \<Rightarrow> bool \<Rightarrow> bool \<Rightarrow> MainWindow \<Rightarrow> (error + bool \<times> MainWindow) option" where
  "loadMultipleDropped_loop env [] containedInvalidFormat loadedFirstValidImage s =
     Some (Inr (containedInvalidFormat, s))"
| "loadMultipleDropped_loop env (url # urls) containedInvalidFormat loadedFirstValidImage s =
     (let suffix = toLower (QFileInfo_suffix (QUrl_fileName url));
          supported = ''png jpg jpeg tiff ppm bmp xpm tga''
      in if contains supported suffix
         then
           let s1 = addImageToQueue url s
           in if \<not> loadedFirstValidImage
              then (case load env url s1 of
                      None \<Rightarrow> None
                    | Some (Inl e) \<Rightarrow> Some (Inl e)
                    | Some (Inr (ok, s2)) \<Rightarrow>
                        loadMultipleDropped_loop env urls containedInvalidFormat True s2)
              else loadMultipleDropped_loop env urls containedInvalidFormat
                     loadedFirstValidImage s1
         else loadMultipleDropped_loop env urls True loadedFirstValidImage s)"

definition loadMultipleDropped :: "Env \<Rightarrow> QUrl list \<Rightarrow> MainWindow \<Rightarrow> (error + MainWindow) option" where
  "loadMultipleDropped env urls s =
     (case loadMultipleDropped_loop env urls False False s of
        None \<Rightarrow> None
      | Some (Inl e) \<Rightarrow> Some (Inl e)
      | Some (Inr (containedInvalidFormat, s1)) \<Rightarrow>
          Some (Inr
            (if containedInvalidFormat
             then s1\<lparr>messageBoxes := messageBoxes s1 @
                      [(''Not All Images Loaded Into Queue'',
                        ''Some images had unsupported formats and where not loaded into the queue!'')]\<rparr>
             else s1)))"

section \<open>Saving the maps\<close>

text \<open>
  \<open>map.save(name)\<close> for one of the three maps: on success the file is written and the
  status bar says so, otherwise a message box is shown.
\<close>

definition saveMap ::
  "Env \<Rightarrow> QImage \<Rightarrow> string \<Rightarrow> string \<Rightarrow> string \<Rightarrow> string \<Rightarrow> MainWindow \<Rightarrow> MainWindow" where
  "saveMap env img name errorTitle errorText savedText s =
     (if \<not> QImage_save env img name
      then s\<lparr>messageBoxes := messageBoxes s @ [(errorTitle, errorText)]\<rparr>
      else s\<lparr>savedFiles := savedFiles s @ [(name, img)],
             statusBar := savedText @ '' saved as '' @ [CHR 0x22] @ name @ [CHR 0x22]\<rparr>)"

definition save :: "Env \<Rightarrow> QUrl \<Rightarrow> MainWindow \<Rightarrow> MainWindow" where
  "save env url s =
     (if \<not> isValid url then s
      else
        let path = toLocalFile url;
            suffix0 = QFileInfo_suffix path;
            suffix = (if toLower suffix0 = ''tga'' then ''png'' else suffix0);
            name_normal =
              QFileInfo_absolutePath env path @ ''/'' @ QFileInfo_baseName path @ ''_normal.''
                @ suffix;
            name_specular =
              QFileInfo_absolutePath env path @ ''/'' @ QFileInfo_baseName path @ ''_spec.''
                @ suffix;
            name_displace =
              QFileInfo_absolutePath env path @ ''/'' @ QFileInfo_baseName path @ ''_displace.''
                @ suffix;
            s1 = (if \<not> isNull (normalmap s) \<and> checkBox_queue_generateNormal s
                  then saveMap env (normalmap s) name_normal ''Error while saving Normalmap''
                         ''Normalmap not saved!'' ''Normalmap'' s
                  else s);
            s2 = (if \<not> isNull (specmap s1) \<and> checkBox_queue_generateSpec s1
                  then saveMap env (specmap s1) name_specular ''Error while saving Specularmap''
                         ''Specularmap not saved!'' ''Specularmap'' s1
                  else s1);
            s3 = (if \<not> isNull (displacementmap s2) \<and> checkBox_queue_generateDisplace s2
                  then saveMap env (displacementmap s2) name_displace
                         ''Error while saving Displacementmap'' ''Displacementmap not saved!''
                         ''Displacementmap'' s2
                  else s2)
        in s3\<lparr>exportPath := QUrl_RemoveFilename url\<rparr>)"

section \<open>Processing the queue\<close>

definition stopProcessingQueue :: "MainWindow \<Rightarrow> MainWindow" where
  "stopProcessingQueue s = s\<lparr>stopQueue := True\<rparr>"

text \<open>
  \<open>QCoreApplication::processEvents()\<close> at the end of queue item \<open>i\<close>: of the events it
  can deliver, only the click on the stop button is modelled.
\<close>

definition processEvents :: "Env \<Rightarrow> nat \<Rightarrow> MainWindow \<Rightarrow> MainWindow" where
  "processEvents env i s = (if stopClicked env i then stopProcessingQueue s else s)"

text \<open>The body of the loop of \<open>processQueue\<close> for the queue item \<open>i\<close>.\<close>

definition processQueue_item :: "Env \<Rightarrow> nat \<Rightarrow> MainWindow \<Rightarrow> (error + MainWindow) option" where
  "processQueue_item env i s =
     (let item = listWidget_queue s ! i;
          s1 = s\<lparr>statusBar := ''Processing Queue Item: '' @ item_text item\<rparr>
      in case load env (getUrl item) s1 of
           None \<Rightarrow> None
         | Some (Inl e) \<Rightarrow> Some (Inl e)
         | Some (Inr (ok, s2)) \<Rightarrow>
             let s3 = (if checkBox_queue_generateNormal s2 then calcNormal env s2 else s2);
                 s4 = (if checkBox_queue_generateSpec s3 then calcSpec env s3 else s3);
                 s5 = (if checkBox_queue_generateDisplace s4 then calcDisplace env s4 else s4);
                 exportUrl =
                   QUrl_fromLocalFile (toLocalFile (exportPath s5) @ ''/'' @ item_text item);
                 s6 = save env exportUrl s5
             in Some (Inr (processEvents env i s6)))"

text \<open>
  The loop of \<open>processQueue\<close>, from the index \<open>i\<close> on: the condition reads the length of
  the queue and the stop flag before every item.
\<close>

partial_function (option) processQueue_loop ::
  "Env \<Rightarrow> nat \<Rightarrow> MainWindow \<Rightarrow> (error + MainWindow) option" where
  "processQueue_loop env i s =
     (if i < length (listWidget_queue s) \<and> \<not> stopQueue s
      then (case processQueue_item env i s of
              None \<Rightarrow> None
            | Some (Inl e) \<Rightarrow> Some (Inl e)
            | Some (Inr s1) \<Rightarrow> processQueue_loop env (i + 1) s1)
      else Some (Inr s))"

definition processQueue :: "Env \<Rightarrow> MainWindow \<Rightarrow> (error + MainWindow) option" where
  "processQueue env s =
     (if length (listWidget_queue s) = 0 then Some (Inr s)
      else if \<not> isValid (exportPath s)
      then Some (Inr (s\<lparr>messageBoxes :=
                          messageBoxes s @ [(''Invalid Export Path'', ''Export path is invalid!'')]\<rparr>))
      else (case processQueue_loop env 0 s of
              None \<Rightarrow> None
            | Some (Inl e) \<Rightarrow> Some (Inl e)
            | Some (Inr s1) \<Rightarrow> Some (Inr (s1\<lparr>stopQueue := False\<rparr>))))"

section \<open>Definitions for the statements\<close>

text \<open>
  The four calculations, timed or not, write the maps, the raw intensity of the normal map,
  the last calculation times, the status bar and the timer count, and nothing else.
  \<open>outside_maps\<close> blanks these fields: two states with the same image agree on all others.
\<close>

definition outside_maps :: "MainWindow \<Rightarrow> MainWindow" where
  "outside_maps s =
     s\<lparr>normalmap := QImage_null, specmap := QImage_null, displacementmap := QImage_null,
       ssaomap := QImage_null, normalmapRawIntensity := QImage_null,
       lastCalctime_normal := 0, lastCalctime_specular := 0, lastCalctime_displace := 0,
       lastCalctime_ssao := 0, statusBar := [], timersRead := 0\<rparr>"

text \<open>
  The value that \<open>load\<close> gives the large-detail spin box for an image whose longest side is
  \<open>imageSize\<close>: the value it computes, kept within the range of the spin box.
\<close>

definition load_largeDetailScale :: "MainWindow \<Rightarrow> int \<Rightarrow> int" where
  "load_largeDetailScale s imageSize =
     (let v = (if imageSize < 300 then largeDetailScale_formula imageSize
               else if 2300 < imageSize then 20
               else largeDetailScale_formula imageSize)
      in if v < spinBox_largeDetailScale_minimum s then spinBox_largeDetailScale_minimum s
         else if spinBox_largeDetailScale_maximum s < v then spinBox_largeDetailScale_maximum s
         else v)"

text \<open>
  An environment and windows to evaluate the functions on. The example generators return
  images of the size of their input whose single data value tells them apart: the normal
  map carries the strength it was calculated with, a specular or displacement map is 2, a
  map that went through the blur stage is 3. Decoding succeeds for two files only.
  \<open>example_window\<close> is a window in which nothing is loaded, \<open>example_loaded\<close> one with an
  image and its maps, \<open>example_changed\<close> the latter after its normal map was calculated
  and the strength was changed from 2 to 5.
\<close>

definition example_env :: Env where
  "example_env =
     \<lparr>QImage_fromFile =
        (\<lambda>p. if p = ''/tmp/stone.png'' then Raster 512 256 [7]
             else if p = ''/tmp/moss.png'' then Raster 300 200 [8]
             else QImage_null),
      QImage_save = (\<lambda>img name. True),
      QImage_scaled = (\<lambda>img w h aspect transform. Raster (nat w) (nat h) []),
      QFileInfo_absolutePath = (\<lambda>p. rev (drop 1 (dropWhile (\<lambda>c. c \<noteq> CHR ''/'') (rev p)))),
      QString_number = (\<lambda>d. ''0.01''),
      calculateNormalmap =
        (\<lambda>mode useRed useGreen useBlue useAlpha img kernel strength invert tileable keep sc ht.
           Raster (nat (width img)) (nat (height img)) [nat (dbl_to_int strength)]),
      getIntensityMap_convertToQImage =
        (\<lambda>mode useRed useGreen useBlue useAlpha img kernel strength invert tileable keep sc ht.
           Raster (nat (width img)) (nat (height img)) [1]),
      calculateSpecmap =
        (\<lambda>mode redMul greenMul blueMul alphaMul img sc contrast.
           Raster (nat (width img)) (nat (height img)) [2]),
      calculateSsaomap =
        (\<lambda>normal depth size samples noiseTexSize.
           Raster (nat (width normal)) (nat (height normal)) [4]),
      IntensityMap_of = (\<lambda>img mode. IntensityMap (nat (width img)) (nat (height img)) []),
      IntensityMap_channels =
        (\<lambda>img mode useRed useGreen useBlue useAlpha.
           IntensityMap (nat (width img)) (nat (height img)) []),
      convertToQImage = (\<lambda>m. case m of IntensityMap w h d \<Rightarrow> Raster w h [3]),
      BoxBlur_calculate = (\<lambda>m radius tileable. m),
      elapsed = (\<lambda>n. 10),
      stopClicked = (\<lambda>i. i = 0)\<rparr>"

definition example_window :: MainWindow where
  "example_window =
     \<lparr>input = QImage_null,
      channelIntensity = QImage_null,
      normalmap = QImage_null,
      specmap = QImage_null,
      displacementmap = QImage_null,
      ssaomap = QImage_null,
      normalmapRawIntensity = QImage_null,
      lastCalctime_normal = 0,
      lastCalctime_specular = 0,
      lastCalctime_displace = 0,
      lastCalctime_ssao = 0,
      stopQueue = False,
      exportPath = QUrl_empty,
      loadedImagePath = QUrl_empty,
      statusBar = [],
      messageBoxes = [],
      savedFiles = [],
      timersRead = 0,
      listWidget_queue = [],
      tabWidget_currentIndex = 0,
      checkBox_autoUpdate = False,
      checkBox_autoUpdate_enabled = False,
      doubleSpinBox_autoUpdateThreshold = Double 1 (- 1),
      checkBox_displayChannelIntensity = False,
      radioButton_displayRed = True,
      radioButton_displayGreen = False,
      radioButton_displayBlue = False,
      doubleSpinBox_strength = Double 2 0,
      checkBox_invertHeight = False,
      checkBox_tileable = False,
      comboBox_mode_normal = 0,
      checkBox_useRed_normal = True,
      checkBox_useGreen_normal = True,
      checkBox_useBlue_normal = True,
      checkBox_useAlpha_normal = False,
      comboBox_method = 0,
      checkBox_keepLargeDetail = True,
      spinBox_largeDetailScale = 25,
      spinBox_largeDetailScale_minimum = 1,
      spinBox_largeDetailScale_maximum = 100,
      doubleSpinBox_largeDetailHeight = Double 1 0,
      spinBox_normalmapSize = 100,
      comboBox_mode_spec = 0,
      doubleSpinBox_spec_redMul = Double 1 0,
      doubleSpinBox_spec_greenMul = Double 1 0,
      doubleSpinBox_spec_blueMul = Double 1 0,
      doubleSpinBox_spec_alphaMul = Double 0 0,
      doubleSpinBox_spec_scale = Double 1 0,
      doubleSpinBox_spec_contrast = Double 1 0,
      comboBox_mode_displace = 0,
      doubleSpinBox_displace_redMul = Double 1 0,
      doubleSpinBox_displace_greenMul = Double 1 0,
      doubleSpinBox_displace_blueMul = Double 1 0,
      doubleSpinBox_displace_scale = Double 1 0,
      doubleSpinBox_displace_contrast = Double 1 0,
      checkBox_displace_blur = True,
      spinBox_displace_blurRadius = 5,
      checkBox_displace_blur_tileable = True,
      doubleSpinBox_ssao_size = Double 10 0,
      spinBox_ssao_samples = 16,
      spinBox_ssao_noiseTexSize = 4,
      checkBox_queue_generateNormal = True,
      checkBox_queue_generateSpec = True,
      checkBox_queue_generateDisplace = True\<rparr>"

definition stone_url :: QUrl where
  "stone_url = \<lparr>isValid = True, toLocalFile = ''/tmp/stone.png''\<rparr>"

definition missing_tga_url :: QUrl where
  "missing_tga_url = \<lparr>isValid = True, toLocalFile = ''/tmp/Missing.TGA''\<rparr>"

definition brick_tga_url :: QUrl where
  "brick_tga_url = \<lparr>isValid = True, toLocalFile = ''/tmp/out/brick.TGA''\<rparr>"

definition readme_url :: QUrl where
  "readme_url = \<lparr>isValid = True, toLocalFile = ''/tmp/README''\<rparr>"

definition example_loaded :: MainWindow where
  "example_loaded =
     example_window\<lparr>input := Raster 512 256 [7],
       normalmap := Raster 512 256 [2],
       normalmapRawIntensity := Raster 512 256 [1],
       specmap := Raster 512 256 [2],
       displacementmap := Raster 512 256 [3],
       exportPath := \<lparr>isValid = True, toLocalFile = ''/tmp/''\<rparr>,
       loadedImagePath := stone_url,
       checkBox_autoUpdate_enabled := True\<rparr>"


section \<open>What the calculations and load leave unchanged\<close>

lemma outside_maps_fields:
  assumes "outside_maps a = outside_maps b"
  shows "listWidget_queue a = listWidget_queue b"
    and "input a = input b"
    and "channelIntensity a = channelIntensity b"
    and "checkBox_keepLargeDetail a = checkBox_keepLargeDetail b"
    and "spinBox_largeDetailScale a = spinBox_largeDetailScale b"
    and "spinBox_largeDetailScale_minimum a = spinBox_largeDetailScale_minimum b"
    and "spinBox_largeDetailScale_maximum a = spinBox_largeDetailScale_maximum b"
    and "checkBox_displayChannelIntensity a = checkBox_displayChannelIntensity b"
    and "stopQueue a = stopQueue b"
    and "messageBoxes a = messageBoxes b"
    and "savedFiles a = savedFiles b"
    and "radioButton_displayRed a = radioButton_displayRed b"
    and "radioButton_displayGreen a = radioButton_displayGreen b"
    and "radioButton_displayBlue a = radioButton_displayBlue b"
    and "exportPath a = exportPath b"
    and "checkBox_queue_generateNormal a = checkBox_queue_generateNormal b"
    and "checkBox_queue_generateSpec a = checkBox_queue_generateSpec b"
    and "checkBox_queue_generateDisplace a = checkBox_queue_generateDisplace b"
  using arg_cong [OF assms, of listWidget_queue] arg_cong [OF assms, of input]
    arg_cong [OF assms, of radioButton_displayRed]
    arg_cong [OF assms, of radioButton_displayGreen]
    arg_cong [OF assms, of radioButton_displayBlue]
    arg_cong [OF assms, of exportPath]
    arg_cong [OF assms, of checkBox_queue_generateNormal]
    arg_cong [OF assms, of checkBox_queue_generateSpec]
    arg_cong [OF assms, of checkBox_queue_generateDisplace]
    arg_cong [OF assms, of channelIntensity] arg_cong [OF assms, of checkBox_keepLargeDetail]
    arg_cong [OF assms, of spinBox_largeDetailScale]
    arg_cong [OF assms, of spinBox_largeDetailScale_minimum]
    arg_cong [OF assms, of spinBox_largeDetailScale_maximum]
    arg_cong [OF assms, of checkBox_displayChannelIntensity]
    arg_cong [OF assms, of stopQueue] arg_cong [OF assms, of messageBoxes]
    arg_cong [OF assms, of savedFiles]
  by (simp_all add: outside_maps_def)

lemma outside_calcNormal: "outside_maps (calcNormal env s) = outside_maps s"
  by (simp add: calcNormal_def outside_maps_def Let_def)

lemma outside_calcSpec: "outside_maps (calcSpec env s) = outside_maps s"
  by (simp add: calcSpec_def outside_maps_def Let_def)

lemma outside_calcDisplace: "outside_maps (calcDisplace env s) = outside_maps s"
  by (simp add: calcDisplace_def outside_maps_def Let_def)

lemma outside_calcSsao: "outside_maps (calcSsao env s) = outside_maps s"
  by (simp add: calcSsao_def calcNormal_def outside_maps_def Let_def)

lemma outside_upd:
  "outside_maps (s\<lparr>statusBar := a, timersRead := b\<rparr>) = outside_maps s"
  "outside_maps (s\<lparr>lastCalctime_normal := c\<rparr>) = outside_maps s"
  "outside_maps (s\<lparr>lastCalctime_specular := c\<rparr>) = outside_maps s"
  "outside_maps (s\<lparr>lastCalctime_displace := c\<rparr>) = outside_maps s"
  "outside_maps (s\<lparr>lastCalctime_ssao := c\<rparr>) = outside_maps s"
  "outside_maps (s\<lparr>statusBar := a\<rparr>) = outside_maps s"
  by (simp_all add: outside_maps_def)

lemma outside_timed:
  "outside_maps (calcNormal_timed env s) = outside_maps s"
  "outside_maps (calcSpec_timed env s) = outside_maps s"
  "outside_maps (calcDisplace_timed env s) = outside_maps s"
  "outside_maps (calcSsao_timed env s) = outside_maps s"
  by (simp_all add: calcNormal_timed_def calcSpec_timed_def calcDisplace_timed_def
        calcSsao_timed_def displayCalcTime_def Let_def outside_upd outside_calcNormal
        outside_calcSpec outside_calcDisplace outside_calcSsao)

lemma outside_calcNormalAndPreview:
  "calcNormalAndPreview env s = Some s' \<Longrightarrow> outside_maps s' = outside_maps s"
  by (rule calcNormalAndPreview.raw_induct [rotated])
    (auto split: if_splits simp: outside_timed)

lemma outside_calcSpecAndPreview:
  "calcSpecAndPreview env s = Some s' \<Longrightarrow> outside_maps s' = outside_maps s"
  by (rule calcSpecAndPreview.raw_induct [rotated])
    (auto split: if_splits simp: outside_timed)

lemma outside_calcDisplaceAndPreview:
  "calcDisplaceAndPreview env s = Some s' \<Longrightarrow> outside_maps s' = outside_maps s"
  by (rule calcDisplaceAndPreview.raw_induct [rotated])
    (auto split: if_splits simp: outside_timed)

lemma outside_calcSsaoAndPreview:
  "calcSsaoAndPreview env s = Some s' \<Longrightarrow> outside_maps s' = outside_maps s"
  by (rule calcSsaoAndPreview.raw_induct [rotated])
    (auto split: if_splits simp: outside_timed)

lemma outside_autoUpdate:
  "autoUpdate env s = Some s' \<Longrightarrow> outside_maps s' = outside_maps s"
  by (auto simp: autoUpdate_def Let_def split: if_splits
      dest: outside_calcNormalAndPreview outside_calcSpecAndPreview
        outside_calcDisplaceAndPreview outside_calcSsaoAndPreview)

lemma preview_0: "preview env 0 s = Some s"
  by (simp add: preview_def)

lemma displayChannelIntensity_Some:
  "displayChannelIntensity env s =
     Some (if isNull (input s) then s
           else s\<lparr>channelIntensity := convertToQImage env (displayChannelIntensity_temp env s)\<rparr>)"
  by (simp add: displayChannelIntensity_def Let_def preview_0)

lemma setValue_outside:
  assumes "spinBox_largeDetailScale_setValue env v s = Some s'"
  shows "outside_maps s' =
    outside_maps (s\<lparr>spinBox_largeDetailScale :=
      (if v < spinBox_largeDetailScale_minimum s then spinBox_largeDetailScale_minimum s
       else if spinBox_largeDetailScale_maximum s < v then spinBox_largeDetailScale_maximum s
       else v)\<rparr>)"
proof -
  let ?b = "if v < spinBox_largeDetailScale_minimum s then spinBox_largeDetailScale_minimum s
            else if spinBox_largeDetailScale_maximum s < v
            then spinBox_largeDetailScale_maximum s
            else v"
  show ?thesis
  proof (cases "?b = spinBox_largeDetailScale s")
    case True
    then have "s' = s"
      using assms by (simp add: spinBox_largeDetailScale_setValue_def Let_def)
    moreover have "s\<lparr>spinBox_largeDetailScale := ?b\<rparr> = s"
      using True by simp
    ultimately show ?thesis by simp
  next
    case False
    then have "autoUpdate env (s\<lparr>spinBox_largeDetailScale := ?b\<rparr>) = Some s'"
      using assms by (simp add: spinBox_largeDetailScale_setValue_def Let_def)
    then show ?thesis by (rule outside_autoUpdate)
  qed
qed








section \<open>The three ways load can end\<close>

lemma load_invalid:
  "\<not> isValid url \<Longrightarrow> load env url s = Some (Inl (Exception ''[load] invalid url!''))"
  by (simp add: load_def)

lemma load_fail:
  assumes "isValid url" "isNull (QImage_fromFile env (toLocalFile url))"
  shows "load env url s = Some (Inr (False,
     s\<lparr>input := QImage_fromFile env (toLocalFile url),
       statusBar := ''Error: Image '' @ QUrl_fileName url @ '' NOT loaded!'',
       messageBoxes := messageBoxes s @ [(''Error while loading image'',
          ''Image not loaded!'' @
                   (if toLower (QFileInfo_suffix (toLocalFile url)) = ''tga''
                    then CHR 0x0A # ''Only uncompressed TGA files are supported.''
                    else CHR 0x0A # ''Most likely the image format is not supported.''))]\<rparr>))"
  using assms by (simp add: load_def Let_def)

lemma load_success:
  assumes "isValid url" and "\<not> isNull (QImage_fromFile env (toLocalFile url))"
    and "load env url s = Some r"
  shows "\<exists>s7. r = Inr (True, s7\<lparr>tabWidget_currentIndex := 0,
                 channelIntensity :=
                   (if checkBox_displayChannelIntensity s
                    then convertToQImage env
                           (displayChannelIntensity_temp env
                              (s\<lparr>input := QImage_fromFile env (toLocalFile url)\<rparr>))
                    else QImage_null),
                 normalmap := QImage_null,
                 specmap := QImage_null,
                 displacementmap := QImage_null,
                 ssaomap := QImage_null, statusBar := []\<rparr>)
     \<and> outside_maps s7 = outside_maps (s\<lparr>input := QImage_fromFile env (toLocalFile url),
          exportPath := (if QUrl_isEmpty (exportPath s) then QUrl_RemoveFilename url
                           else exportPath s),
          loadedImagePath := url, checkBox_autoUpdate_enabled := True,
          checkBox_keepLargeDetail :=
             \<not> max (width (QImage_fromFile env (toLocalFile url)))
                   (height (QImage_fromFile env (toLocalFile url))) < 300,
          spinBox_largeDetailScale := load_largeDetailScale s
             (max (width (QImage_fromFile env (toLocalFile url)))
                   (height (QImage_fromFile env (toLocalFile url))))\<rparr>)"
proof -
  let ?img = "QImage_fromFile env (toLocalFile url)"
  let ?size = "max (width ?img) (height ?img)"
  let ?v = "if ?size < 300 then largeDetailScale_formula ?size
               else if 2300 < ?size then 20
               else largeDetailScale_formula ?size"
  let ?s6 = "s\<lparr>statusBar := ''loading Image: '' @ QUrl_fileName url, input := ?img,
          exportPath := (if QUrl_isEmpty (exportPath s) then QUrl_RemoveFilename url
                           else exportPath s),
          loadedImagePath := url, checkBox_autoUpdate_enabled := True,
          checkBox_keepLargeDetail := \<not> ?size < 300\<rparr>"
  let ?target = "s\<lparr>input := ?img,
          exportPath := (if QUrl_isEmpty (exportPath s) then QUrl_RemoveFilename url
                           else exportPath s),
          loadedImagePath := url, checkBox_autoUpdate_enabled := True,
          checkBox_keepLargeDetail := \<not> ?size < 300,
          spinBox_largeDetailScale := load_largeDetailScale s ?size\<rparr>"
  have unfold: "load env url s =
      (case spinBox_largeDetailScale_setValue env ?v ?s6 of
         None \<Rightarrow> None
       | Some s7 \<Rightarrow>
           (case (if checkBox_displayChannelIntensity s7
                  then displayChannelIntensity env
                    (s7\<lparr>tabWidget_currentIndex := 0,
                               channelIntensity := QImage_null,
                               normalmap := QImage_null,
                               specmap := QImage_null,
                               displacementmap := QImage_null,
                               ssaomap := QImage_null\<rparr>)
                  else Some (s7\<lparr>tabWidget_currentIndex := 0,
                               channelIntensity := QImage_null,
                               normalmap := QImage_null,
                               specmap := QImage_null,
                               displacementmap := QImage_null,
                               ssaomap := QImage_null\<rparr>)) of
              None \<Rightarrow> None
            | Some s9 \<Rightarrow> Some (Inr (True, s9\<lparr>statusBar := []\<rparr>))))"
    using assms(1,2)
    by (cases "?size < 300")
      (simp_all add: load_def Let_def enableAutoupdate_def preview_0
        del: max_less_iff_conj less_max_iff_disj cong: if_cong option.case_cong)
  from assms(3) have "\<exists>s7. spinBox_largeDetailScale_setValue env ?v ?s6 = Some s7"
    unfolding unfold by (cases "spinBox_largeDetailScale_setValue env ?v ?s6") simp_all
  then obtain s7 where s7: "spinBox_largeDetailScale_setValue env ?v ?s6 = Some s7" ..
  have "outside_maps s7 =
      outside_maps (?s6\<lparr>spinBox_largeDetailScale := load_largeDetailScale s ?size\<rparr>)"
    using setValue_outside [OF s7]
    by (simp add: load_largeDetailScale_def Let_def split del: if_split cong: if_cong)
  then have out: "outside_maps s7 = outside_maps ?target"
    by (simp add: outside_maps_def split del: if_split cong: if_cong)
  have f: "input s7 = ?img" "checkBox_displayChannelIntensity s7 = checkBox_displayChannelIntensity s"
    "radioButton_displayRed s7 = radioButton_displayRed s"
    "radioButton_displayGreen s7 = radioButton_displayGreen s"
    "radioButton_displayBlue s7 = radioButton_displayBlue s"
    using outside_maps_fields [OF out] by simp_all
  have temp: "displayChannelIntensity_temp env
      (s7\<lparr>tabWidget_currentIndex := 0, channelIntensity := QImage_null,
           normalmap := QImage_null, specmap := QImage_null, displacementmap := QImage_null,
           ssaomap := QImage_null\<rparr>) = displayChannelIntensity_temp env (s\<lparr>input := ?img\<rparr>)"
    by (simp add: displayChannelIntensity_temp_def f)
  have "load env url s = Some (Inr (True, s7\<lparr>tabWidget_currentIndex := 0,
                 channelIntensity :=
                   (if checkBox_displayChannelIntensity s
                    then convertToQImage env (displayChannelIntensity_temp env (s\<lparr>input := ?img\<rparr>))
                    else QImage_null),
                 normalmap := QImage_null,
                 specmap := QImage_null,
                 displacementmap := QImage_null,
                 ssaomap := QImage_null, statusBar := []\<rparr>))"
  proof (cases "checkBox_displayChannelIntensity s")
    case True
    with s7 assms(2) show ?thesis
      unfolding unfold by (simp add: displayChannelIntensity_Some f temp)
  next
    case False
    with s7 show ?thesis
      unfolding unfold by (simp add: f)
  qed
  with assms(3) out show ?thesis by auto
qed



lemma saveMap_fields:
  "normalmap (saveMap env img name t1 t2 t3 s) = normalmap s"
  "specmap (saveMap env img name t1 t2 t3 s) = specmap s"
  "displacementmap (saveMap env img name t1 t2 t3 s) = displacementmap s"
  "checkBox_queue_generateNormal (saveMap env img name t1 t2 t3 s) = checkBox_queue_generateNormal s"
  "checkBox_queue_generateSpec (saveMap env img name t1 t2 t3 s) = checkBox_queue_generateSpec s"
  "checkBox_queue_generateDisplace (saveMap env img name t1 t2 t3 s) = checkBox_queue_generateDisplace s"
  "listWidget_queue (saveMap env img name t1 t2 t3 s) = listWidget_queue s"
  "stopQueue (saveMap env img name t1 t2 t3 s) = stopQueue s"
  "savedFiles (saveMap env img name t1 t2 t3 s) =
     savedFiles s @ (if QImage_save env img name then [(name, img)] else [])"
  by (simp_all add: saveMap_def)

lemmas string_eval = QUrl_fileName_def QFileInfo_fileName_def QFileInfo_suffix_def
  QFileInfo_baseName_def toLower_def toLower_char_def

lemmas example_eval = example_env_def example_window_def example_loaded_def isNull_def
  width_def height_def comboBox_mode_def comboBox_kernel_def

lemma largeDetailScale_formula_512: "largeDetailScale_formula 512 = 81"
  by code_simp

section \<open>The claims\<close>

text \<open>
  C2 (the code differs from the claim). \<open>loadMultipleDropped\<close> tests the suffix with
  \<open>supported.contains(suffix)\<close>, a substring test on the string of the supported formats.
  For the two dropped files /tmp/stone.png and /tmp/README the second one has the empty
  suffix, which is a substring: it is put into the queue, and no message box is shown.
\<close>

theorem loadMultipleDropped_without_suffix:
  "loadMultipleDropped example_env [stone_url, readme_url] example_window =
     Some (Inr (example_window\<lparr>input := Raster 512 256 [7],
       exportPath := \<lparr>isValid = True, toLocalFile = ''/tmp/''\<rparr>,
       loadedImagePath := stone_url,
       checkBox_autoUpdate_enabled := True,
       spinBox_largeDetailScale := 81,
       listWidget_queue :=
         [\<lparr>getUrl = stone_url, item_text = ''stone.png''\<rparr>,
          \<lparr>getUrl = readme_url, item_text = ''README''\<rparr>]\<rparr>))"
  by (simp add: loadMultipleDropped_def load_def Let_def addImageToQueue_def
      stone_url_def readme_url_def example_env_def example_window_def isNull_def
      string_eval width_def height_def enableAutoupdate_def
      spinBox_largeDetailScale_setValue_def autoUpdate_def preview_0 QUrl_isEmpty_def
      QUrl_empty_def QUrl_RemoveFilename_def largeDetailScale_formula_512)




text \<open>
  C4, counterexample. In \<open>example_loaded\<close> the blur check box is checked, with radius 5,
  tileable. \<open>calcSpec\<close> stores what the generator returns (data 2), not its blurred image
  (data 3); \<open>calcDisplace\<close> stores the blurred image.
\<close>

theorem specmap_not_blurred:
  "checkBox_displace_blur example_loaded
   \<and> specmap (calcSpec example_env example_loaded) = Raster 512 256 [2]
   \<and> convertToQImage example_env
        (BoxBlur_calculate example_env
           (IntensityMap_of example_env (Raster 512 256 [2]) IntensityMap_AVERAGE) 5 True)
       = Raster 512 256 [3]
   \<and> displacementmap (calcDisplace example_env example_loaded) = Raster 512 256 [3]"
  by (simp add: calcSpec_def calcDisplace_def Let_def example_eval)

text \<open>
  C4, as amended. With an image loaded, the specular map is what the generator returns,
  whatever the blur widgets say; only the displacement map has the blur stage, applied
  after generation when \<open>checkBox_displace_blur\<close> is checked, with the radius and the
  tileable flag of the displacement widgets.
\<close>

theorem blur_stage_only_displacement:
  assumes "\<not> isNull (input s)"
  shows "specmap (calcSpec env s) =
           calculateSpecmap env (comboBox_mode (comboBox_mode_spec s))
             (doubleSpinBox_spec_redMul s) (doubleSpinBox_spec_greenMul s)
             (doubleSpinBox_spec_blueMul s) (doubleSpinBox_spec_alphaMul s) (input s)
             (doubleSpinBox_spec_scale s) (doubleSpinBox_spec_contrast s)
    \<and> displacementmap (calcDisplace env s) =
           (if checkBox_displace_blur s
            then convertToQImage env
                   (BoxBlur_calculate env
                      (IntensityMap_of env
                         (calculateSpecmap env (comboBox_mode (comboBox_mode_displace s))
                            (doubleSpinBox_displace_redMul s) (doubleSpinBox_displace_greenMul s)
                            (doubleSpinBox_displace_blueMul s) (Double 0 0) (input s)
                            (doubleSpinBox_displace_scale s) (doubleSpinBox_displace_contrast s))
                         IntensityMap_AVERAGE)
                      (spinBox_displace_blurRadius s) (checkBox_displace_blur_tileable s))
            else calculateSpecmap env (comboBox_mode (comboBox_mode_displace s))
                   (doubleSpinBox_displace_redMul s) (doubleSpinBox_displace_greenMul s)
                   (doubleSpinBox_displace_blueMul s) (Double 0 0) (input s)
                   (doubleSpinBox_displace_scale s) (doubleSpinBox_displace_contrast s))"
  using assms by (simp add: calcDisplace_def calcSpec_def Let_def)

text \<open>The theorem at a concrete input.\<close>

theorem blur_stage_only_displacement_witness:
  "\<not> isNull (input example_loaded)
   \<and> specmap (calcSpec example_env example_loaded) = Raster 512 256 [2]
   \<and> displacementmap (calcDisplace example_env example_loaded) = Raster 512 256 [3]
   \<and> displacementmap (calcDisplace example_env (example_loaded\<lparr>checkBox_displace_blur := False\<rparr>))
       = Raster 512 256 [2]"
  using blur_stage_only_displacement [of example_loaded example_env]
    blur_stage_only_displacement [of "example_loaded\<lparr>checkBox_displace_blur := False\<rparr>" example_env]
  by (simp add: example_eval)

text \<open>
  C5. With an image loaded, the displacement map that \<open>calcDisplace\<close> calculates without
  the blur stage, from a mode index, red, green and blue multipliers, a scale and a contrast,
  is the specular map that \<open>calcSpec\<close> calculates from the same values and the alpha
  multiplier 0.
\<close>

theorem calcDisplace_alpha_zero:
  assumes "\<not> isNull (input s)"
  shows "displacementmap (calcDisplace env
           (s\<lparr>comboBox_mode_displace := modeIndex,
              doubleSpinBox_displace_redMul := redMul,
              doubleSpinBox_displace_greenMul := greenMul,
              doubleSpinBox_displace_blueMul := blueMul,
              doubleSpinBox_displace_scale := sc,
              doubleSpinBox_displace_contrast := contrast,
              checkBox_displace_blur := False\<rparr>))
       = specmap (calcSpec env
           (s\<lparr>comboBox_mode_spec := modeIndex,
              doubleSpinBox_spec_redMul := redMul,
              doubleSpinBox_spec_greenMul := greenMul,
              doubleSpinBox_spec_blueMul := blueMul,
              doubleSpinBox_spec_alphaMul := Double 0 0,
              doubleSpinBox_spec_scale := sc,
              doubleSpinBox_spec_contrast := contrast\<rparr>))"
  using assms by (simp add: calcDisplace_def calcSpec_def Let_def)

text \<open>The theorem at a concrete input.\<close>

theorem calcDisplace_alpha_zero_witness:
  "\<not> isNull (input example_loaded)
   \<and> displacementmap (calcDisplace example_env
         (example_loaded\<lparr>comboBox_mode_displace := 1,
            doubleSpinBox_displace_redMul := Double 3 0,
            doubleSpinBox_displace_greenMul := Double 1 (- 1),
            doubleSpinBox_displace_blueMul := Double 1 0,
            doubleSpinBox_displace_scale := Double 2 0,
            doubleSpinBox_displace_contrast := Double 1 0,
            checkBox_displace_blur := False\<rparr>))
     = specmap (calcSpec example_env
         (example_loaded\<lparr>comboBox_mode_spec := 1,
            doubleSpinBox_spec_redMul := Double 3 0,
            doubleSpinBox_spec_greenMul := Double 1 (- 1),
            doubleSpinBox_spec_blueMul := Double 1 0,
            doubleSpinBox_spec_alphaMul := Double 0 0,
            doubleSpinBox_spec_scale := Double 2 0,
            doubleSpinBox_spec_contrast := Double 1 0\<rparr>))"
  using calcDisplace_alpha_zero [where s = example_loaded and env = example_env
      and modeIndex = 1 and redMul = "Double 3 0" and greenMul = "Double 1 (- 1)"
      and blueMul = "Double 1 0" and sc = "Double 2 0" and contrast = "Double 1 0"]
  by (simp add: example_eval)

text \<open>
  C6. When no image is loaded, each of \<open>calcNormal\<close>, \<open>calcSpec\<close>, \<open>calcDisplace\<close> and
  \<open>calcSsao\<close> returns the state it was given: no map changes, nothing is raised.
\<close>

theorem calc_without_input:
  assumes "isNull (input s)"
  shows "calcNormal env s = s \<and> calcSpec env s = s \<and> calcDisplace env s = s
    \<and> calcSsao env s = s"
  using assms by (simp add: calcNormal_def calcSpec_def calcDisplace_def calcSsao_def)

text \<open>The theorem at a concrete input.\<close>

theorem calc_without_input_witness:
  "isNull (input example_window)
   \<and> calcNormal example_env example_window = example_window
   \<and> calcSpec example_env example_window = example_window
   \<and> calcDisplace example_env example_window = example_window
   \<and> calcSsao example_env example_window = example_window"
proof -
  have h: "isNull (input example_window)"
    by (simp add: example_window_def isNull_def)
  show ?thesis using h calc_without_input [OF h, of example_env] by simp
qed

text \<open>
  C7, counterexample. \<open>load\<close> throws for a URL that is not valid, here the empty URL.
\<close>

theorem load_invalid_url_throws:
  "load example_env QUrl_empty example_window = Some (Inl (Exception ''[load] invalid url!''))"
  by (simp add: load_def QUrl_empty_def)

text \<open>
  C7, as amended. For a valid URL whose file cannot be decoded, \<open>load\<close> returns false,
  with the error in the status bar and in a message box whose text has the TGA hint when
  the suffix is tga in any case, and for a valid URL \<open>load\<close> never throws. For a URL that
  is not valid it throws.
\<close>

theorem load_reports_failure:
  "(isValid url \<and> isNull (QImage_fromFile env (toLocalFile url)) \<longrightarrow>
      load env url s = Some (Inr (False,
        s\<lparr>input := QImage_fromFile env (toLocalFile url),
          statusBar := ''Error: Image '' @ QUrl_fileName url @ '' NOT loaded!'',
          messageBoxes := messageBoxes s @ [(''Error while loading image'',
            ''Image not loaded!'' @
              (if toLower (QFileInfo_suffix (toLocalFile url)) = ''tga''
               then CHR 0x0A # ''Only uncompressed TGA files are supported.''
               else CHR 0x0A # ''Most likely the image format is not supported.''))]\<rparr>)))
   \<and> (isValid url \<longrightarrow> load env url s \<noteq> Some (Inl e))
   \<and> (\<not> isValid url \<longrightarrow> load env url s = Some (Inl (Exception ''[load] invalid url!'')))"
proof (intro conjI impI)
  assume "isValid url \<and> isNull (QImage_fromFile env (toLocalFile url))"
  then show "load env url s = Some (Inr (False,
        s\<lparr>input := QImage_fromFile env (toLocalFile url),
          statusBar := ''Error: Image '' @ QUrl_fileName url @ '' NOT loaded!'',
          messageBoxes := messageBoxes s @ [(''Error while loading image'',
            ''Image not loaded!'' @
              (if toLower (QFileInfo_suffix (toLocalFile url)) = ''tga''
               then CHR 0x0A # ''Only uncompressed TGA files are supported.''
               else CHR 0x0A # ''Most likely the image format is not supported.''))]\<rparr>))"
    using load_fail by blast
next
  assume v: "isValid url"
  show "load env url s \<noteq> Some (Inl e)"
  proof (cases "isNull (QImage_fromFile env (toLocalFile url))")
    case True
    then show ?thesis using load_fail [OF v True, of s] by simp
  next
    case False
    show ?thesis
    proof
      assume "load env url s = Some (Inl e)"
      from load_success [OF v False this] show False by auto
    qed
  qed
next
  assume "\<not> isValid url"
  then show "load env url s = Some (Inl (Exception ''[load] invalid url!''))"
    by (rule load_invalid)
qed

text \<open>The theorem at a concrete input.\<close>

theorem load_reports_failure_witness:
  "load example_env missing_tga_url example_window = Some (Inr (False,
     example_window\<lparr>statusBar := ''Error: Image Missing.TGA NOT loaded!'',
       messageBoxes := [(''Error while loading image'',
         ''Image not loaded!'' @ CHR 0x0A # ''Only uncompressed TGA files are supported.'')]\<rparr>))
   \<and> load example_env missing_tga_url example_window \<noteq> Some (Inl (Exception ''[load] invalid url!''))
   \<and> load example_env QUrl_empty example_window = Some (Inl (Exception ''[load] invalid url!''))"
  using load_reports_failure [of missing_tga_url example_env example_window "Exception ''[load] invalid url!''"]
    load_reports_failure [of QUrl_empty example_env example_window "Exception ''[load] invalid url!''"]
  by (simp add: missing_tga_url_def example_env_def example_window_def QUrl_empty_def isNull_def
      QUrl_fileName_def QFileInfo_fileName_def QFileInfo_suffix_def toLower_def toLower_char_def)

text \<open>
  C8. When the suffix of the chosen file is tga, in any case, the files that \<open>save\<close>
  writes are named with the suffix png: the normal, specular and displacement map, each
  written when it is not null, its check box is checked and the write succeeds.
\<close>

theorem save_tga_as_png:
  assumes "isValid url" and "toLower (QFileInfo_suffix (toLocalFile url)) = ''tga''"
  shows "savedFiles (save env url s) =
     savedFiles s
     @ (if \<not> isNull (normalmap s) \<and> checkBox_queue_generateNormal s
           \<and> QImage_save env (normalmap s)
                (QFileInfo_absolutePath env (toLocalFile url) @ ''/''
                 @ QFileInfo_baseName (toLocalFile url) @ ''_normal.png'')
        then [(QFileInfo_absolutePath env (toLocalFile url) @ ''/''
                 @ QFileInfo_baseName (toLocalFile url) @ ''_normal.png'', normalmap s)]
        else [])
     @ (if \<not> isNull (specmap s) \<and> checkBox_queue_generateSpec s
           \<and> QImage_save env (specmap s)
                (QFileInfo_absolutePath env (toLocalFile url) @ ''/''
                 @ QFileInfo_baseName (toLocalFile url) @ ''_spec.png'')
        then [(QFileInfo_absolutePath env (toLocalFile url) @ ''/''
                 @ QFileInfo_baseName (toLocalFile url) @ ''_spec.png'', specmap s)]
        else [])
     @ (if \<not> isNull (displacementmap s) \<and> checkBox_queue_generateDisplace s
           \<and> QImage_save env (displacementmap s)
                (QFileInfo_absolutePath env (toLocalFile url) @ ''/''
                 @ QFileInfo_baseName (toLocalFile url) @ ''_displace.png'')
        then [(QFileInfo_absolutePath env (toLocalFile url) @ ''/''
                 @ QFileInfo_baseName (toLocalFile url) @ ''_displace.png'', displacementmap s)]
        else [])"
  using assms by (simp add: save_def Let_def saveMap_fields)

text \<open>The theorem at a concrete input.\<close>

theorem save_tga_as_png_witness:
  "isValid brick_tga_url
   \<and> toLower (QFileInfo_suffix (toLocalFile brick_tga_url)) = ''tga''
   \<and> savedFiles (save example_env brick_tga_url example_loaded) =
       [(''/tmp/out/brick_normal.png'', Raster 512 256 [2]),
        (''/tmp/out/brick_spec.png'', Raster 512 256 [2]),
        (''/tmp/out/brick_displace.png'', Raster 512 256 [3])]"
  using save_tga_as_png [of brick_tga_url example_env example_loaded]
  by (simp add: brick_tga_url_def example_env_def example_loaded_def example_window_def
      isNull_def string_eval)

text \<open>
  C10. When the file of a valid URL cannot be decoded, \<open>load\<close> returns false, the stored
  input is null afterwards, and the channel intensity and the four maps are the ones from
  before the call.
\<close>

theorem failed_load_discards_input:
  assumes "isValid url" and "isNull (QImage_fromFile env (toLocalFile url))"
  shows "\<exists>s'. load env url s = Some (Inr (False, s'))
    \<and> isNull (input s')
    \<and> channelIntensity s' = channelIntensity s
    \<and> normalmap s' = normalmap s
    \<and> specmap s' = specmap s
    \<and> displacementmap s' = displacementmap s
    \<and> ssaomap s' = ssaomap s"
  using assms load_fail [OF assms, of s] by simp

text \<open>The theorem at a concrete input.\<close>

theorem failed_load_discards_input_witness:
  "load example_env missing_tga_url example_loaded = Some (Inr (False,
     example_loaded\<lparr>input := QImage_null,
       statusBar := ''Error: Image Missing.TGA NOT loaded!'',
       messageBoxes := [(''Error while loading image'',
         ''Image not loaded!'' @ CHR 0x0A # ''Only uncompressed TGA files are supported.'')]\<rparr>))
   \<and> normalmap example_loaded = Raster 512 256 [2]"
  using failed_load_discards_input [of missing_tga_url example_env example_loaded]
  by (simp add: load_def Let_def missing_tga_url_def example_env_def example_window_def
      example_loaded_def isNull_def
      QUrl_fileName_def QFileInfo_fileName_def QFileInfo_suffix_def toLower_def toLower_char_def)

end
